theory Spec2Isabelle
  imports Complex_Main
begin

section \<open>Lexer (lexer.py)\<close>

text \<open>
  Source characters are modelled as code points below 256. The three classification
  methods of Python's \<open>str\<close> that the lexer calls are written out for that range:
  \<open>isdigit\<close> holds for the ASCII digits and the superscripts U+00B2, U+00B3, U+00B9;
  \<open>isalpha\<close> for the ASCII and Latin-1 letters; \<open>isalnum\<close> adds the digits and the
  vulgar fractions U+00BC to U+00BE. The lexer state is the pair of \<open>self.pos\<close> and
  \<open>self.line\<close>; \<open>self.source\<close> (the text after \<open>strip_comments\<close>) never changes
  and is passed along.
\<close>

datatype token_type =
    WORD | NUMBER | COMMA | PERIOD | COLON | LBRACE | RBRACE
  | STRING_QUOTED | INTERP_STRING | EOF
  | PLUS | MINUS | STAR | SLASH | PERCENT | EQ | NEQ | LTE | GTE | LT | GT

datatype Token = Token (tok_type: token_type) (tok_value: string) (tok_line: nat)

datatype LexerError = UnknownCharacter char nat | UnclosedString nat

definition isdigit :: "char \<Rightarrow> bool" where
  "isdigit c = (let n = of_char c :: nat in
     (48 \<le> n \<and> n \<le> 57) \<or> n = 178 \<or> n = 179 \<or> n = 185)"

definition isalpha :: "char \<Rightarrow> bool" where
  "isalpha c = (let n = of_char c :: nat in
     (65 \<le> n \<and> n \<le> 90) \<or> (97 \<le> n \<and> n \<le> 122) \<or> n = 170 \<or> n = 181 \<or> n = 186
     \<or> (192 \<le> n \<and> n \<le> 214) \<or> (216 \<le> n \<and> n \<le> 246) \<or> (248 \<le> n \<and> n \<le> 255))"

definition isalnum :: "char \<Rightarrow> bool" where
  "isalnum c = (let n = of_char c :: nat in
     isalpha c \<or> isdigit c \<or> (188 \<le> n \<and> n \<le> 190))"

definition is_space :: "char \<Rightarrow> bool" where
  \<comment> \<open>\<open>ch in " \t\r\n"\<close>\<close>
  "is_space c = (c = CHR '' '' \<or> c = CHR 0x09 \<or> c = CHR 0x0D \<or> c = CHR 0x0A)"

text \<open>\<open>Lexer.skip_whitespace\<close>, with \<open>advance\<close> inlined: a consumed newline counts a line.\<close>

function skip_whitespace :: "string \<Rightarrow> nat \<Rightarrow> nat \<Rightarrow> nat \<times> nat" where
  "skip_whitespace source pos line =
     (if pos < length source \<and> is_space (source ! pos)
      then skip_whitespace source (pos + 1)
             (if source ! pos = CHR 0x0A then line + 1 else line)
      else (pos, line))"
  by pat_completeness auto
termination
  by (relation "measure (\<lambda>(source, pos, line). length source - pos)") auto

text \<open>
  The loop of \<open>Lexer.read_number\<close>: \<open>buf\<close> is the list of characters read so far. A
  \<open>'.'\<close> is appended only when a digit follows it; otherwise the loop breaks and leaves
  \<open>pos\<close> on the \<open>'.'\<close>.
\<close>

function read_number_loop :: "string \<Rightarrow> nat \<Rightarrow> string \<Rightarrow> string \<times> nat" where
  "read_number_loop source pos buf =
     (if pos < length source \<and> (isdigit (source ! pos) \<or> source ! pos = CHR ''.'')
      then
        (let ch = source ! pos in
         if ch = CHR ''.'' then
           (if pos + 1 < length source \<and> isdigit (source ! (pos + 1))
            then read_number_loop source (pos + 1) (buf @ [ch])
            else (buf, pos))
         else read_number_loop source (pos + 1) (buf @ [ch]))
      else (buf, pos))"
  by pat_completeness auto
termination
  by (relation "measure (\<lambda>(source, pos, buf). length source - pos)") auto

definition read_number :: "string \<Rightarrow> nat \<Rightarrow> nat \<Rightarrow> Token \<times> nat" where
  "read_number source pos line =
     (let r = read_number_loop source pos [] in (Token NUMBER (fst r) line, snd r))"

function read_word_loop :: "string \<Rightarrow> nat \<Rightarrow> string \<Rightarrow> string \<times> nat" where
  "read_word_loop source pos buf =
     (if pos < length source \<and> (isalnum (source ! pos) \<or> source ! pos = CHR ''_'')
      then read_word_loop source (pos + 1) (buf @ [source ! pos])
      else (buf, pos))"
  by pat_completeness auto
termination
  by (relation "measure (\<lambda>(source, pos, buf). length source - pos)") auto

definition read_word :: "string \<Rightarrow> nat \<Rightarrow> nat \<Rightarrow> Token \<times> nat" where
  "read_word source pos line =
     (let r = read_word_loop source (pos + 1) [source ! pos] in (Token WORD (fst r) line, snd r))"

text \<open>The two inline-comment loops: skip to the end of the line, the newline not consumed.\<close>

function skip_to_eol :: "string \<Rightarrow> nat \<Rightarrow> nat" where
  "skip_to_eol source pos =
     (if pos < length source \<and> source ! pos \<noteq> CHR 0x0A
      then skip_to_eol source (pos + 1) else pos)"
  by pat_completeness auto
termination
  by (relation "measure (\<lambda>(source, pos). length source - pos)") auto

text \<open>
  The body of a quoted string, from the character after the opening quote. The result is
  \<open>(buf, has_interp, pos, line)\<close> at the closing quote or at the end of the text.
\<close>

function read_string_loop ::
  "string \<Rightarrow> nat \<Rightarrow> nat \<Rightarrow> string \<Rightarrow> bool \<Rightarrow> string \<times> bool \<times> nat \<times> nat" where
  "read_string_loop source pos line buf has_interp =
     (if pos < length source then
        (let c = source ! pos in
         if c = CHR 0x22 then (buf, has_interp, pos, line)
         else if c = CHR 0x5C \<and> pos + 1 < length source
                 \<and> source ! (pos + 1) \<in> {CHR ''n'', CHR ''t'', CHR ''{'', CHR 0x22, CHR 0x5C}
         then
           (let nxt = source ! (pos + 1) in
            read_string_loop source (pos + 2) line
              (buf @ [if nxt = CHR ''n'' then CHR 0x0A
                      else if nxt = CHR ''t'' then CHR 0x09 else nxt])
              has_interp)
         else
           read_string_loop source (pos + 1)
             (if c = CHR 0x0A then line + 1 else line)
             (buf @ [c]) (has_interp \<or> c = CHR ''{''))
      else (buf, has_interp, pos, line))"
  by pat_completeness auto
termination
  by (relation "measure (\<lambda>(source, pos, line, buf, h). length source - pos)") auto

declare skip_whitespace.simps [simp del] read_number_loop.simps [simp del]
  read_word_loop.simps [simp del] skip_to_eol.simps [simp del] read_string_loop.simps [simp del]

lemma skip_whitespace_mono: "pos \<le> fst (skip_whitespace source pos line)"
proof (induction source pos line rule: skip_whitespace.induct)
  case (1 source pos line)
  show ?case
  proof (cases "pos < length source \<and> is_space (source ! pos)")
    case True
    with "1" show ?thesis by (subst skip_whitespace.simps) auto
  next
    case False
    then show ?thesis by (subst skip_whitespace.simps) auto
  qed
qed

lemma read_number_loop_mono: "pos \<le> snd (read_number_loop source pos buf)"
proof (induction source pos buf rule: read_number_loop.induct)
  case (1 source pos buf)
  show ?case
    using "1" by (subst read_number_loop.simps) (auto simp: Let_def le_Suc_eq dest: Suc_leD)
qed

lemma read_number_loop_progress:
  assumes "pos < length source" and "isdigit (source ! pos)"
  shows "pos < snd (read_number_loop source pos buf)"
proof -
  have nd: "source ! pos \<noteq> CHR ''.''"
    using assms(2) by (auto simp: isdigit_def)
  have "read_number_loop source pos buf = read_number_loop source (pos + 1) (buf @ [source ! pos])"
    using assms nd by (subst read_number_loop.simps) (simp add: Let_def)
  moreover have "pos + 1 \<le> snd (read_number_loop source (pos + 1) (buf @ [source ! pos]))"
    by (rule read_number_loop_mono)
  ultimately show ?thesis by simp
qed

lemma read_word_loop_mono: "pos \<le> snd (read_word_loop source pos buf)"
proof (induction source pos buf rule: read_word_loop.induct)
  case (1 source pos buf)
  show ?case
    using "1" by (subst read_word_loop.simps) (auto dest: Suc_leD)
qed

lemma skip_to_eol_mono: "pos \<le> skip_to_eol source pos"
proof (induction source pos rule: skip_to_eol.induct)
  case (1 source pos)
  show ?case
    using "1" by (subst skip_to_eol.simps) (auto dest: Suc_leD)
qed

lemma skip_to_eol_progress:
  assumes "pos < length source" and "source ! pos \<noteq> CHR 0x0A"
  shows "pos < skip_to_eol source pos"
proof -
  have "skip_to_eol source pos = skip_to_eol source (pos + 1)"
    using assms by (subst skip_to_eol.simps) simp
  moreover have "pos + 1 \<le> skip_to_eol source (pos + 1)"
    by (rule skip_to_eol_mono)
  ultimately show ?thesis by simp
qed

lemma read_string_loop_mono:
  "pos \<le> fst (snd (snd (read_string_loop source pos line buf h)))"
proof (induction source pos line buf h rule: read_string_loop.induct)
  case (1 source pos line buf h)
  show ?case
    using "1" by (subst read_string_loop.simps) (auto simp: Let_def dest: Suc_leD)
qed

lemma sw_all: "x = fst (skip_whitespace source pos0 line0) \<Longrightarrow> pos0 \<le> x"
  by (simp add: skip_whitespace_mono)

lemma rs_all: "r = read_string_loop source p l b h \<Longrightarrow> p \<le> fst (snd (snd r))"
  by (simp add: read_string_loop_mono)

lemma read_number_progress:
  "pos < length source \<Longrightarrow> isdigit (source ! pos) \<Longrightarrow> pos < snd (read_number source pos line)"
  by (simp add: read_number_def Let_def read_number_loop_progress)

lemma read_word_progress: "pos < snd (read_word source pos line)"
  using read_word_loop_mono [of "pos + 1" source "[source ! pos]"]
  by (simp add: read_word_def Let_def)

lemma tokenize_step: "p0 \<le> p \<Longrightarrow> p < n \<Longrightarrow> p < q \<Longrightarrow> n - q < n - (p0::nat)"
  by arith

text \<open>
  The main loop of \<open>Lexer.tokenize\<close>. Each branch of the \<open>if\<close>/\<open>elif\<close> chain is one
  branch here, in the source's order; \<open>self.error(ch)\<close> and the unclosed-string raise are
  \<open>Inl\<close>. The result carries \<open>self.line\<close> for the final \<open>EOF\<close> token.
\<close>

function tokenize_loop ::
  "string \<Rightarrow> nat \<Rightarrow> nat \<Rightarrow> Token list \<Rightarrow> LexerError + (Token list \<times> nat)" where
  "tokenize_loop source pos0 line0 tokens =
     (if pos0 < length source then
        (let pos = fst (skip_whitespace source pos0 line0);
             line = snd (skip_whitespace source pos0 line0) in
         if pos \<ge> length source then Inr (tokens, line)
         else
           (let ch = source ! pos in
            if ch = CHR ''.'' then
              (if pos + 2 < length source \<and> source ! (pos + 1) = CHR ''.''
                  \<and> source ! (pos + 2) = CHR ''.''
               then tokenize_loop source (pos + 3) line tokens
               else tokenize_loop source (pos + 1) line (tokens @ [Token PERIOD ''.'' line]))
            else if ch = CHR '','' then
              tokenize_loop source (pos + 1) line (tokens @ [Token COMMA '','' line])
            else if ch = CHR '':'' then
              tokenize_loop source (pos + 1) line (tokens @ [Token COLON '':'' line])
            else if ch = CHR ''{'' then
              tokenize_loop source (pos + 1) line (tokens @ [Token LBRACE ''{'' line])
            else if ch = CHR ''}'' then
              tokenize_loop source (pos + 1) line (tokens @ [Token RBRACE ''}'' line])
            else if ch = CHR 0x22 then
              (let r = read_string_loop source (pos + 1) line [] False;
                   raw = fst r; has_interp = fst (snd r);
                   pos' = fst (snd (snd r)); line' = snd (snd (snd r)) in
               if pos' \<ge> length source then Inl (UnclosedString line)
               else tokenize_loop source (pos' + 1) line'
                      (tokens @ [Token (if has_interp then INTERP_STRING else STRING_QUOTED)
                                   raw line]))
            else if ch = CHR ''+'' then
              tokenize_loop source (pos + 1) line (tokens @ [Token PLUS ''+'' line])
            else if ch = CHR ''-'' then
              (if pos + 2 < length source \<and> source ! (pos + 1) = CHR ''-''
                  \<and> source ! (pos + 2) = CHR ''-''
               then tokenize_loop source (skip_to_eol source pos) line tokens
               else tokenize_loop source (pos + 1) line (tokens @ [Token MINUS ''-'' line]))
            else if ch = CHR ''*'' then
              tokenize_loop source (pos + 1) line (tokens @ [Token STAR ''*'' line])
            else if ch = CHR ''/'' then
              (if pos + 1 < length source \<and> source ! (pos + 1) = CHR ''/''
               then tokenize_loop source (skip_to_eol source pos) line tokens
               else tokenize_loop source (pos + 1) line (tokens @ [Token SLASH ''/'' line]))
            else if ch = CHR ''%'' then
              tokenize_loop source (pos + 1) line (tokens @ [Token PERCENT ''%'' line])
            else if ch = CHR ''!'' then
              (if pos + 1 < length source \<and> source ! (pos + 1) = CHR ''=''
               then tokenize_loop source (pos + 2) line (tokens @ [Token NEQ ''!='' line])
               else Inl (UnknownCharacter ch line))
            else if ch = CHR ''<'' then
              (if pos + 1 < length source \<and> source ! (pos + 1) = CHR ''=''
               then tokenize_loop source (pos + 2) line (tokens @ [Token LTE ''<='' line])
               else tokenize_loop source (pos + 1) line (tokens @ [Token LT ''<'' line]))
            else if ch = CHR ''>'' then
              (if pos + 1 < length source \<and> source ! (pos + 1) = CHR ''=''
               then tokenize_loop source (pos + 2) line (tokens @ [Token GTE ''>='' line])
               else tokenize_loop source (pos + 1) line (tokens @ [Token GT ''>'' line]))
            else if ch = CHR ''='' then
              tokenize_loop source (pos + 1) line (tokens @ [Token EQ ''='' line])
            else if isdigit ch then
              tokenize_loop source (snd (read_number source pos line)) line
                (tokens @ [fst (read_number source pos line)])
            else if isalpha ch \<or> ch = CHR ''_'' then
              tokenize_loop source (snd (read_word source pos line)) line
                (tokens @ [fst (read_word source pos line)])
            else Inl (UnknownCharacter ch line)))
      else Inr (tokens, line0))"
  by pat_completeness auto
termination
  apply (relation "measure (\<lambda>(source, pos, line, tokens). length source - pos)")
  subgoal by simp
  subgoal
    by (frule sw_all, (frule rs_all)?, simp only: in_measure prod.case,
        (erule tokenize_step, simp,
         auto simp: read_number_progress read_word_progress intro!: skip_to_eol_progress)?)
  subgoal
    by (frule sw_all, (frule rs_all)?, simp only: in_measure prod.case,
        (erule tokenize_step, simp,
         auto simp: read_number_progress read_word_progress intro!: skip_to_eol_progress)?)
  subgoal
    by (frule sw_all, (frule rs_all)?, simp only: in_measure prod.case,
        (erule tokenize_step, simp,
         auto simp: read_number_progress read_word_progress intro!: skip_to_eol_progress)?)
  subgoal
    by (frule sw_all, (frule rs_all)?, simp only: in_measure prod.case,
        (erule tokenize_step, simp,
         auto simp: read_number_progress read_word_progress intro!: skip_to_eol_progress)?)
  subgoal
    by (frule sw_all, (frule rs_all)?, simp only: in_measure prod.case,
        (erule tokenize_step, simp,
         auto simp: read_number_progress read_word_progress intro!: skip_to_eol_progress)?)
  subgoal
    by (frule sw_all, (frule rs_all)?, simp only: in_measure prod.case,
        (erule tokenize_step, simp,
         auto simp: read_number_progress read_word_progress intro!: skip_to_eol_progress)?)
  subgoal
    by (frule sw_all, (frule rs_all)?, simp only: in_measure prod.case,
        (erule tokenize_step, simp,
         auto simp: read_number_progress read_word_progress intro!: skip_to_eol_progress)?)
  subgoal
    by (frule sw_all, (frule rs_all)?, simp only: in_measure prod.case,
        (erule tokenize_step, simp,
         auto simp: read_number_progress read_word_progress intro!: skip_to_eol_progress)?)
  subgoal
    by (frule sw_all, (frule rs_all)?, simp only: in_measure prod.case,
        (erule tokenize_step, simp,
         auto simp: read_number_progress read_word_progress intro!: skip_to_eol_progress)?)
  subgoal
    by (frule sw_all, (frule rs_all)?, simp only: in_measure prod.case,
        (erule tokenize_step, simp,
         auto simp: read_number_progress read_word_progress intro!: skip_to_eol_progress)?)
  subgoal
    by (frule sw_all, (frule rs_all)?, simp only: in_measure prod.case,
        (erule tokenize_step, simp,
         auto simp: read_number_progress read_word_progress intro!: skip_to_eol_progress)?)
  subgoal
    by (frule sw_all, (frule rs_all)?, simp only: in_measure prod.case,
        (erule tokenize_step, simp,
         auto simp: read_number_progress read_word_progress intro!: skip_to_eol_progress)?)
  subgoal
    by (frule sw_all, (frule rs_all)?, simp only: in_measure prod.case,
        (erule tokenize_step, simp,
         auto simp: read_number_progress read_word_progress intro!: skip_to_eol_progress)?)
  subgoal
    by (frule sw_all, (frule rs_all)?, simp only: in_measure prod.case,
        (erule tokenize_step, simp,
         auto simp: read_number_progress read_word_progress intro!: skip_to_eol_progress)?)
  subgoal
    by (frule sw_all, (frule rs_all)?, simp only: in_measure prod.case,
        (erule tokenize_step, simp,
         auto simp: read_number_progress read_word_progress intro!: skip_to_eol_progress)?)
  subgoal
    by (frule sw_all, (frule rs_all)?, simp only: in_measure prod.case,
        (erule tokenize_step, simp,
         auto simp: read_number_progress read_word_progress intro!: skip_to_eol_progress)?)
  subgoal
    by (frule sw_all, (frule rs_all)?, simp only: in_measure prod.case,
        (erule tokenize_step, simp,
         auto simp: read_number_progress read_word_progress intro!: skip_to_eol_progress)?)
  subgoal
    by (frule sw_all, (frule rs_all)?, simp only: in_measure prod.case,
        (erule tokenize_step, simp,
         auto simp: read_number_progress read_word_progress intro!: skip_to_eol_progress)?)
  subgoal
    by (frule sw_all, (frule rs_all)?, simp only: in_measure prod.case,
        (erule tokenize_step, simp,
         auto simp: read_number_progress read_word_progress intro!: skip_to_eol_progress)?)
  subgoal
    by (frule sw_all, (frule rs_all)?, simp only: in_measure prod.case,
        (erule tokenize_step, simp,
         auto simp: read_number_progress read_word_progress intro!: skip_to_eol_progress)?)
  subgoal
    by (frule sw_all, (frule rs_all)?, simp only: in_measure prod.case,
        (erule tokenize_step, simp,
         auto simp: read_number_progress read_word_progress intro!: skip_to_eol_progress)?)
  subgoal
    by (frule sw_all, (frule rs_all)?, simp only: in_measure prod.case,
        (erule tokenize_step, simp,
         auto simp: read_number_progress read_word_progress intro!: skip_to_eol_progress)?)
  done

declare tokenize_loop.simps [simp del]

definition tokenize :: "string \<Rightarrow> LexerError + Token list" where
  "tokenize source =
     (case tokenize_loop source 0 1 [] of
        Inl e \<Rightarrow> Inl e
      | Inr r \<Rightarrow> Inr (fst r @ [Token EOF [] (snd r)]))"

section \<open>Runtime values and errors (interpreter.py)\<close>

text \<open>
  \<open>RuntimeError\<close> is the interpreter's exception class \<open>RuntimeError_\<close>. It carries one constructor per raise site of the modelled code, with the
  data its message is formatted from (a rendered value is the string Python's \<open>str\<close>
  gives). \<open>TypeError\<close> and \<open>AttributeError\<close> are Python's own exceptions, which the
  interpreter's top level does not catch.
\<close>

datatype rt_error =
    NameNotFound string nat
  | UnknownNode
  | CannotNegate string nat
  | NotANumber string string nat
  | DivideByZero nat
  | ModuloByZero nat
  | UnknownOperator string nat
  | DictGetNeedsDict nat
  | KeyNotFound string nat
  | DictRemoveNeedsDict nat
  | BackgroundTaskFailed string nat
  | WaitNeedsTask nat
  | LoopTooLong
  | RepeatNeedsNumber string nat
  | Thrown string nat
  | HasKeyNeedsDict nat
  | NotComparable string nat
  | UnknownComparison string nat
  | NotAnObject nat
  | MethodNotFound string string nat

datatype exn =
    RuntimeError rt_error
  | StopException
  | SkipException
  | TypeError
  | AttributeError

text \<open>
  The runtime value domain. A Python \<open>float\<close> is modelled by the rational it denotes and
  its arithmetic is exact: rounding, infinities and NaN are outside the model. Lists,
  dictionaries and instances are modelled by their contents (a dictionary as an
  association list in insertion order). \<open>VClosure n\<close> is \<open>Closure(func_def, global_env)\<close>
  for the \<open>FunctionDef\<close> named \<open>n\<close>; \<open>VNative n\<close> a native Python callable. \<open>VTask\<close> is
  an \<open>AsyncThread\<close> with its \<open>thread_result\<close> and \<open>thread_error\<close> once the thread has
  finished; \<open>VFuture\<close> an object with a \<open>result()\<close> method and what that call does.
\<close>

datatype val =
    VNone
  | VBool bool
  | VInt int
  | VFloat rat
  | VStr string
  | VList "val list"
  | VDict "(val \<times> val) list"
  | VClosure string
  | VNative string
  | VInstance string "(string \<times> val) list"
  | VTask val "exn option"
  | VFuture "exn + val"

datatype function_entry = FunctionDef string | NativeCallable string

text \<open>
  The interpreter object: \<open>self.functions\<close> (as \<open>func_table\<close>), and four Python built-ins whose results the
  model takes as given: \<open>str(value)\<close>, \<open>str(exception)\<close>, and the two helpers
  \<open>_loose_eq\<close> and \<open>_to_num\<close> (built on \<open>float(...)\<close> of arbitrary values; \<open>to_num\<close> is
  \<open>None\<close> where \<open>_to_num\<close> raises), and \<open>os.path.exists\<close>.
\<close>

record Interpreter =
  func_table :: "string \<rightharpoonup> function_entry"
  py_str :: "val \<Rightarrow> string"
  exn_str :: "exn \<Rightarrow> string"
  loose_eq :: "val \<Rightarrow> val \<Rightarrow> bool"
  to_num :: "val \<Rightarrow> rat option"
  path_exists :: "string \<Rightarrow> bool"

subsection \<open>Environment\<close>

datatype Environment = Environment (vars: "string \<rightharpoonup> val") (parent: "Environment option")

fun get :: "Environment \<Rightarrow> string \<Rightarrow> nat \<Rightarrow> exn + val" where
  "get (Environment vs p) name line =
     (case vs name of
        Some v \<Rightarrow> Inr v
      | None \<Rightarrow>
          (case p of
             Some q \<Rightarrow> get q name line
           | None \<Rightarrow> Inl (RuntimeError (NameNotFound name line))))"

fun assign :: "Environment \<Rightarrow> string \<Rightarrow> val \<Rightarrow> Environment" where
  "assign (Environment vs p) name v =
     (if name \<in> dom vs then Environment (vs(name \<mapsto> v)) p
      else (case p of
              Some q \<Rightarrow> Environment vs (Some (assign q name v))
            | None \<Rightarrow> Environment (vs(name \<mapsto> v)) None))"

definition set_local :: "Environment \<Rightarrow> string \<Rightarrow> val \<Rightarrow> Environment" where
  "set_local env name v = Environment ((vars env)(name \<mapsto> v)) (parent env)"

text \<open>
  \<open>Environment(parent=env)\<close> is \<open>child env\<close>. The model passes environments by value,
  so the state of the enclosing scope after a block has run in a child scope is read back
  from the child's parent link by \<open>leave\<close>.
\<close>

definition child :: "Environment \<Rightarrow> Environment" where
  "child env = Environment Map.empty (Some env)"

definition leave :: "Environment \<Rightarrow> Environment" where
  "leave env = (case parent env of Some p \<Rightarrow> p | None \<Rightarrow> env)"

text \<open>The scopes of a chain, innermost first, and the outermost one.\<close>

fun chain :: "Environment \<Rightarrow> (string \<rightharpoonup> val) list" where
  "chain (Environment vs p) = vs # (case p of Some q \<Rightarrow> chain q | None \<Rightarrow> [])"

fun root :: "Environment \<Rightarrow> Environment" where
  "root (Environment vs p) = (case p of Some q \<Rightarrow> root q | None \<Rightarrow> Environment vs None)"

definition bound_in_chain :: "Environment \<Rightarrow> string \<Rightarrow> bool" where
  "bound_in_chain env name = list_ex (\<lambda>vs. vs name \<noteq> None) (chain env)"

subsection \<open>Operators\<close>

text \<open>
  Python's numbers as the operators see them: \<open>bool\<close> is a subclass of \<open>int\<close>, so
  \<open>isinstance(v, (int, float))\<close> holds for a boolean too and arithmetic reads it as 0 or 1.
\<close>

datatype number = PyInt int | PyFloat rat

fun as_number :: "val \<Rightarrow> number option" where
  "as_number (VInt i) = Some (PyInt i)"
| "as_number (VFloat r) = Some (PyFloat r)"
| "as_number (VBool b) = Some (PyInt (if b then 1 else 0))"
| "as_number _ = None"

fun of_number :: "number \<Rightarrow> val" where
  "of_number (PyInt i) = VInt i"
| "of_number (PyFloat r) = VFloat r"

fun to_rat :: "number \<Rightarrow> rat" where
  "to_rat (PyInt i) = of_int i"
| "to_rat (PyFloat r) = r"

fun num_add :: "number \<Rightarrow> number \<Rightarrow> number" where
  "num_add (PyInt a) (PyInt b) = PyInt (a + b)"
| "num_add a b = PyFloat (to_rat a + to_rat b)"

fun num_sub :: "number \<Rightarrow> number \<Rightarrow> number" where
  "num_sub (PyInt a) (PyInt b) = PyInt (a - b)"
| "num_sub a b = PyFloat (to_rat a - to_rat b)"

fun num_mul :: "number \<Rightarrow> number \<Rightarrow> number" where
  "num_mul (PyInt a) (PyInt b) = PyInt (a * b)"
| "num_mul a b = PyFloat (to_rat a * to_rat b)"

text \<open>True division always gives a float. Both are called with a non-zero right operand.\<close>

definition num_truediv :: "number \<Rightarrow> number \<Rightarrow> number" where
  "num_truediv a b = PyFloat (to_rat a / to_rat b)"

fun num_mod :: "number \<Rightarrow> number \<Rightarrow> number" where
  "num_mod (PyInt a) (PyInt b) = PyInt (a mod b)"
| "num_mod a b = PyFloat (to_rat a - to_rat b * of_int \<lfloor>to_rat a / to_rat b\<rfloor>)"

text \<open>\<open>int(v)\<close> of a float truncates towards zero.\<close>

definition py_int :: "rat \<Rightarrow> int" where
  "py_int r = (if 0 \<le> r then \<lfloor>r\<rfloor> else \<lceil>r\<rceil>)"

text \<open>\<open>_clean\<close>: ``Return int if whole number, else float.''\<close>

fun clean :: "val \<Rightarrow> val" where
  "clean (VFloat r) = (if r = of_int (py_int r) then VInt (py_int r) else VFloat r)"
| "clean v = v"

text \<open>\<open>_assert_num\<close>: the exception it raises, if any.\<close>

fun assert_num :: "Interpreter \<Rightarrow> val \<Rightarrow> string \<Rightarrow> nat \<Rightarrow> exn option" where
  "assert_num I (VInt i) op line = None"
| "assert_num I (VFloat r) op line = None"
| "assert_num I v op line = Some (RuntimeError (NotANumber (py_str I v) op line))"

fun is_zero :: "val \<Rightarrow> bool" where
  "is_zero (VInt i) = (i = 0)"
| "is_zero (VFloat r) = (r = 0)"
| "is_zero _ = False"

fun is_str :: "val \<Rightarrow> bool" where
  "is_str (VStr s) = True"
| "is_str _ = False"

text \<open>
  The arithmetic of \<open>_apply_op\<close> once both operands have passed \<open>_assert_num\<close>
  (\<open>minus\<close>, \<open>times\<close>, \<open>divided_by\<close>, \<open>modulo\<close>): the result goes through \<open>_clean\<close>.
\<close>

definition checked_arith ::
  "Interpreter \<Rightarrow> string \<Rightarrow> val \<Rightarrow> val \<Rightarrow> nat \<Rightarrow> (number \<Rightarrow> number \<Rightarrow> exn + number) \<Rightarrow> exn + val" where
  "checked_arith I op left right line f =
     (case assert_num I left op line of
        Some e \<Rightarrow> Inl e
      | None \<Rightarrow>
          (case assert_num I right op line of
             Some e \<Rightarrow> Inl e
           | None \<Rightarrow>
               (case (as_number left, as_number right) of
                  (Some a, Some b) \<Rightarrow>
                    (case f a b of Inl e \<Rightarrow> Inl e | Inr n \<Rightarrow> Inr (clean (of_number n)))
                | _ \<Rightarrow> Inl TypeError)))"

definition apply_op :: "Interpreter \<Rightarrow> string \<Rightarrow> val \<Rightarrow> val \<Rightarrow> nat \<Rightarrow> exn + val" where
  "apply_op I op left right line =
     (if op = ''plus'' then
        (case (left, right) of
           (VList xs, VList ys) \<Rightarrow> Inr (VList (xs @ ys))
         | _ \<Rightarrow>
             if is_str left \<or> is_str right
             then Inr (VStr (py_str I left @ '' '' @ py_str I right))
             else (case (as_number left, as_number right) of
                     (Some a, Some b) \<Rightarrow> Inr (of_number (num_add a b))
                   | _ \<Rightarrow> Inl TypeError))
      else if op = ''minus'' then
        checked_arith I op left right line (\<lambda>a b. Inr (num_sub a b))
      else if op = ''times'' then
        checked_arith I op left right line (\<lambda>a b. Inr (num_mul a b))
      else if op = ''divided_by'' then
        checked_arith I op left right line
          (\<lambda>a b. if is_zero right then Inl (RuntimeError (DivideByZero line))
                 else Inr (num_truediv a b))
      else if op = ''modulo'' then
        checked_arith I op left right line
          (\<lambda>a b. if is_zero right then Inl (RuntimeError (ModuloByZero line))
                 else Inr (num_mod a b))
      else Inl (RuntimeError (UnknownOperator op line)))"

subsection \<open>Dictionaries\<close>

text \<open>
  Keys are compared as Python's \<open>dict\<close> compares them: numbers by value (\<open>1\<close>, \<open>1.0\<close>
  and \<open>True\<close> are one key), everything else as the same value. A list or a dictionary
  is unhashable: \<open>k in d\<close>, \<open>d[k]\<close> and \<open>del d[k]\<close> raise \<open>TypeError\<close> for it.
\<close>

fun hashable :: "val \<Rightarrow> bool" where
  "hashable (VList xs) = False"
| "hashable (VDict d) = False"
| "hashable _ = True"

definition key_eq :: "val \<Rightarrow> val \<Rightarrow> bool" where
  "key_eq a b =
     (case (as_number a, as_number b) of
        (Some x, Some y) \<Rightarrow> to_rat x = to_rat y
      | _ \<Rightarrow> a = b)"

fun dict_get :: "(val \<times> val) list \<Rightarrow> val \<Rightarrow> val option" where
  "dict_get [] k = None"
| "dict_get ((k', v) # d) k = (if key_eq k' k then Some v else dict_get d k)"

definition dict_contains :: "(val \<times> val) list \<Rightarrow> val \<Rightarrow> bool" where
  "dict_contains d k = (dict_get d k \<noteq> None)"

definition dict_del :: "(val \<times> val) list \<Rightarrow> val \<Rightarrow> (val \<times> val) list" where
  "dict_del d k = filter (\<lambda>kv. \<not> key_eq (fst kv) k) d"

subsection \<open>Expressions\<close>

text \<open>
  The expression nodes modelled, each with the fields of its dataclass in parser.py.
  \<open>evaluate\<close> has no effect on the environment for these nodes, so it returns only the
  value or the exception raised.
\<close>

datatype expr =
    NumberLiteral rat nat
  | StringLiteral string nat
  | BoolLiteral bool nat
  | NoneLiteral nat
  | LiteralNode val nat
  | Identifier string nat
  | UnaryMinus expr nat
  | BinOp expr string expr nat
  | DictAccess expr expr nat
  | WaitExpr expr nat

text \<open>
  \<open>hasattr(future, "result")\<close> and \<open>hasattr(future, "join")\<close> on the modelled values:
  only a future has \<open>result\<close>; a thread has \<open>join\<close>, and so has every \<open>str\<close>.
\<close>

fun has_result :: "val \<Rightarrow> bool" where
  "has_result (VFuture r) = True"
| "has_result _ = False"

fun has_join :: "val \<Rightarrow> bool" where
  "has_join (VTask r e) = True"
| "has_join (VStr s) = True"
| "has_join _ = False"

text \<open>
  The \<open>WaitExpr\<close> branch of \<open>evaluate\<close> on the value of its operand. \<open>future.join()\<close> on
  a finished thread returns; on a \<open>str\<close> it is \<open>str.join\<close> called without its argument
  and raises \<open>TypeError\<close>.
\<close>

definition wait_for :: "Interpreter \<Rightarrow> val \<Rightarrow> nat \<Rightarrow> exn + val" where
  "wait_for I future line =
     (if has_result future then
        (case future of
           VFuture (Inr v) \<Rightarrow> Inr v
         | VFuture (Inl e) \<Rightarrow> Inl (RuntimeError (BackgroundTaskFailed (exn_str I e) line))
         | _ \<Rightarrow> Inl AttributeError)
      else if has_join future then
        (case future of
           VTask thread_result thread_error \<Rightarrow>
             (case thread_error of Some e \<Rightarrow> Inl e | None \<Rightarrow> Inr thread_result)
         | _ \<Rightarrow> Inl TypeError)
      else Inl (RuntimeError (WaitNeedsTask line)))"

fun evaluate :: "Interpreter \<Rightarrow> Environment \<Rightarrow> expr \<Rightarrow> exn + val" where
  "evaluate I env (NumberLiteral v line) =
     Inr (if v = of_int (py_int v) then VInt (py_int v) else VFloat v)"
| "evaluate I env (LiteralNode v line) = Inr v"
| "evaluate I env (StringLiteral s line) = Inr (VStr s)"
| "evaluate I env (BoolLiteral b line) = Inr (VBool b)"
| "evaluate I env (NoneLiteral line) = Inr VNone"
| "evaluate I env (Identifier name line) =
     (case get env name line of
        Inr v \<Rightarrow> Inr v
      | Inl (RuntimeError e) \<Rightarrow>
          (case func_table I name of
             Some (NativeCallable f) \<Rightarrow> Inr (VNative f)
           | Some (FunctionDef f) \<Rightarrow> Inr (VClosure f)
           | None \<Rightarrow> Inr (VStr name))
      | Inl e \<Rightarrow> Inl e)"
| "evaluate I env (UnaryMinus operand line) =
     (case evaluate I env operand of
        Inl e \<Rightarrow> Inl e
      | Inr v \<Rightarrow>
          (case as_number v of
             None \<Rightarrow> Inl (RuntimeError (CannotNegate (py_str I v) line))
           | Some n \<Rightarrow> Inr (of_number (num_sub (PyInt 0) n))))"
| "evaluate I env (BinOp left op right line) =
     (case evaluate I env left of
        Inl e \<Rightarrow> Inl e
      | Inr l \<Rightarrow>
          (case evaluate I env right of
             Inl e \<Rightarrow> Inl e
           | Inr r \<Rightarrow> apply_op I op l r line))"
| "evaluate I env (DictAccess dict_expr key_expr line) =
     (case evaluate I env dict_expr of
        Inl e \<Rightarrow> Inl e
      | Inr (VDict d) \<Rightarrow>
          (case evaluate I env key_expr of
             Inl e \<Rightarrow> Inl e
           | Inr k \<Rightarrow>
               if \<not> hashable k then Inl TypeError
               else (case dict_get d k of
                       None \<Rightarrow> Inl (RuntimeError (KeyNotFound (py_str I k) line))
                     | Some v \<Rightarrow> Inr v))
      | Inr _ \<Rightarrow> Inl (RuntimeError (DictGetNeedsDict line)))"
| "evaluate I env (WaitExpr e line) =
     (case evaluate I env e of
        Inl x \<Rightarrow> Inl x
      | Inr future \<Rightarrow> wait_for I future line)"

subsection \<open>Conditions\<close>

text \<open>
  \<open>Condition\<close> has \<open>right = None\<close> for the type checks. \<open>parse_single_condition\<close> can
  also return a \<open>FileExists\<close> node, or the bare expression node it has just parsed
  (\<open>BareExpr\<close>); the latter has no field \<open>left\<close>, so \<open>evaluate_condition\<close> raises
  \<open>AttributeError\<close> on it.
\<close>

datatype cond =
    Condition expr string "expr option" nat
  | CompoundCondition cond string cond nat
  | FileExists expr nat
  | BareExpr expr

fun is_num_val :: "val \<Rightarrow> bool" where
  "is_num_val (VInt i) = True"
| "is_num_val (VFloat r) = True"
| "is_num_val _ = False"

fun is_list_val :: "val \<Rightarrow> bool" where
  "is_list_val (VList xs) = True"
| "is_list_val _ = False"

fun is_bool_val :: "val \<Rightarrow> bool" where
  "is_bool_val (VBool b) = True"
| "is_bool_val _ = False"

definition compare :: "Interpreter \<Rightarrow> string \<Rightarrow> val \<Rightarrow> val \<Rightarrow> nat \<Rightarrow> exn + bool" where
  "compare I op left right line =
     (if op = ''equals'' then Inr (loose_eq I left right)
      else if op = ''not_equals'' then Inr (\<not> loose_eq I left right)
      else if op = ''has_key'' then
        (case left of
           VDict d \<Rightarrow> if hashable right then Inr (dict_contains d right) else Inl TypeError
         | _ \<Rightarrow> Inl (RuntimeError (HasKeyNeedsDict line)))
      else
        (case to_num I left of
           None \<Rightarrow> Inl (RuntimeError (NotComparable (py_str I left) line))
         | Some lnum \<Rightarrow>
             (case to_num I right of
                None \<Rightarrow> Inl (RuntimeError (NotComparable (py_str I right) line))
              | Some rnum \<Rightarrow>
                  if op = ''greater_than'' then Inr (lnum > rnum)
                  else if op = ''less_than'' then Inr (lnum < rnum)
                  else if op = ''greater_equal'' then Inr (lnum \<ge> rnum)
                  else if op = ''less_equal'' then Inr (lnum \<le> rnum)
                  else Inl (RuntimeError (UnknownComparison op line)))))"

fun evaluate_condition :: "Interpreter \<Rightarrow> Environment \<Rightarrow> cond \<Rightarrow> exn + bool" where
  "evaluate_condition I env (CompoundCondition l connective r line) =
     (case evaluate_condition I env l of
        Inl e \<Rightarrow> Inl e
      | Inr left \<Rightarrow>
          if connective = ''and''
          then (if left then evaluate_condition I env r else Inr left)
          else (if left then Inr left else evaluate_condition I env r))"
| "evaluate_condition I env (FileExists file_expr line) =
     (case evaluate I env file_expr of
        Inl e \<Rightarrow> Inl e
      | Inr v \<Rightarrow> Inr (path_exists I (py_str I v)))"
| "evaluate_condition I env (BareExpr e) = Inl AttributeError"
| "evaluate_condition I env (Condition l op r line) =
     (case evaluate I env l of
        Inl e \<Rightarrow> Inl e
      | Inr left \<Rightarrow>
          if op = ''is_number'' then Inr (is_num_val left)
          else if op = ''is_text'' then Inr (is_str left)
          else if op = ''is_list'' then Inr (is_list_val left)
          else if op = ''is_boolean'' then Inr (is_bool_val left)
          else
            (case (case r of None \<Rightarrow> Inl (RuntimeError UnknownNode)
                         | Some re \<Rightarrow> evaluate I env re) of
               Inl e \<Rightarrow> Inl e
             | Inr right \<Rightarrow> compare I op left right line))"

subsection \<open>Statements\<close>

datatype stmt =
    LetStmt string expr
  | IfStmt cond "stmt list" "stmt list"
  | RepeatStmt expr "stmt list" nat
  | WhileStmt cond "stmt list"
  | StopStmt
  | SkipStmt
  | TryCatch "stmt list" string "stmt list"
  | AttemptStmt "stmt list" string "stmt list"
  | ThrowStmt expr nat

text \<open>\<open>s.replace(old, new)\<close> for a non-empty \<open>old\<close>, and \<open>s.strip()\<close>.\<close>

function py_replace :: "string \<Rightarrow> string \<Rightarrow> string \<Rightarrow> string" where
  "py_replace old new [] = []"
| "py_replace old new (c # cs) =
     (if old \<noteq> [] \<and> take (length old) (c # cs) = old
      then new @ py_replace old new (drop (length old) (c # cs))
      else c # py_replace old new cs)"
  by pat_completeness auto
termination
  by (relation "measure (\<lambda>(old, new, s). length s)") (auto simp: neq_Nil_conv)

definition py_isspace :: "char \<Rightarrow> bool" where
  "py_isspace c = (let n = of_char c :: nat in
     (9 \<le> n \<and> n \<le> 13) \<or> (28 \<le> n \<and> n \<le> 32) \<or> n = 133 \<or> n = 160)"

definition py_strip :: "string \<Rightarrow> string" where
  "py_strip s = rev (dropWhile py_isspace (rev (dropWhile py_isspace s)))"

text \<open>
  Executing statements. A result is the exception that left the statement, if any, and
  the environment as the statement left it: the scopes are mutated in place in the
  source, so their state survives a raise. The loop of \<open>_exec_while\<close> is
  \<open>exec_while_loop\<close>, with the local \<open>count\<close> as an argument; beside the result it
  returns the number of times it has executed the body (the source does not compute this
  number; \<open>_exec_while\<close> drops it).
\<close>

function execute :: "Interpreter \<Rightarrow> stmt list \<Rightarrow> Environment \<Rightarrow> exn option \<times> Environment"
  and execute_stmt :: "Interpreter \<Rightarrow> stmt \<Rightarrow> Environment \<Rightarrow> exn option \<times> Environment"
  and exec_while_loop ::
    "Interpreter \<Rightarrow> cond \<Rightarrow> stmt list \<Rightarrow> nat \<Rightarrow> Environment \<Rightarrow> (exn option \<times> Environment) \<times> nat"
  and exec_repeat_loop ::
    "Interpreter \<Rightarrow> stmt list \<Rightarrow> nat \<Rightarrow> Environment \<Rightarrow> exn option \<times> Environment"
where
  "execute I [] env = (None, env)"
| "execute I (s # ss) env =
     (case execute_stmt I s env of
        (None, env') \<Rightarrow> execute I ss env'
      | (Some e, env') \<Rightarrow> (Some e, env'))"
| "execute_stmt I (LetStmt name e) env =
     (case evaluate I env e of
        Inl x \<Rightarrow> (Some x, env)
      | Inr v \<Rightarrow> (None, assign env name v))"
| "execute_stmt I (IfStmt c then_body else_body) env =
     (case evaluate_condition I env c of
        Inl x \<Rightarrow> (Some x, env)
      | Inr b \<Rightarrow>
          if b then
            (case execute I then_body (child env) of (r, env') \<Rightarrow> (r, leave env'))
          else if else_body \<noteq> [] then
            (case execute I else_body (child env) of (r, env') \<Rightarrow> (r, leave env'))
          else (None, env))"
| "execute_stmt I (RepeatStmt count_expr body line) env =
     (case evaluate I env count_expr of
        Inl x \<Rightarrow> (Some x, env)
      | Inr v \<Rightarrow>
          (case as_number v of
             None \<Rightarrow> (Some (RuntimeError (RepeatNeedsNumber (py_str I v) line)), env)
           | Some n \<Rightarrow> exec_repeat_loop I body (nat (py_int (to_rat n))) env))"
| "execute_stmt I (WhileStmt c body) env = fst (exec_while_loop I c body 0 env)"
| "execute_stmt I StopStmt env = (Some StopException, env)"
| "execute_stmt I SkipStmt env = (Some SkipException, env)"
| "execute_stmt I (TryCatch try_body error_var catch_body) env =
     (case execute I try_body (child env) of
        (None, env') \<Rightarrow> (None, leave env')
      | (Some e, env') \<Rightarrow>
          (case execute I catch_body
                  (set_local (child (leave env')) error_var
                     (VStr (py_replace ''RuntimeError_: '' [] (exn_str I e)))) of
             (r, env'') \<Rightarrow> (r, leave env'')))"
| "execute_stmt I (AttemptStmt try_body error_var catch_body) env =
     (case execute I try_body env of
        (Some (RuntimeError e), env') \<Rightarrow>
          (case execute I catch_body
                  (set_local (child env') error_var
                     (VStr (py_strip (exn_str I (RuntimeError e))))) of
             (r, env'') \<Rightarrow> (r, leave env''))
      | (r, env') \<Rightarrow> (r, env'))"
| "execute_stmt I (ThrowStmt msg_expr line) env =
     (case evaluate I env msg_expr of
        Inl x \<Rightarrow> (Some x, env)
      | Inr v \<Rightarrow> (Some (RuntimeError (Thrown (py_str I v) line)), env))"
| "exec_while_loop I c body count env =
     (case evaluate_condition I env c of
        Inl x \<Rightarrow> ((if x = StopException then None else Some x, env), 0)
      | Inr b \<Rightarrow>
          if \<not> b then ((None, env), 0)
          else if count + 1 > 10000000 then ((Some (RuntimeError LoopTooLong), env), 0)
          else
            (case execute I body (child env) of
               (None, env') \<Rightarrow>
                 (case exec_while_loop I c body (count + 1) (leave env') of
                    (r, n) \<Rightarrow> (r, n + 1))
             | (Some SkipException, env') \<Rightarrow>
                 (case exec_while_loop I c body (count + 1) (leave env') of
                    (r, n) \<Rightarrow> (r, n + 1))
             | (Some StopException, env') \<Rightarrow> ((None, leave env'), 1)
             | (Some x, env') \<Rightarrow> ((Some x, leave env'), 1)))"
| "exec_repeat_loop I body 0 env = (None, env)"
| "exec_repeat_loop I body (Suc n) env =
     (case execute I body (child env) of
        (None, env') \<Rightarrow> exec_repeat_loop I body n (leave env')
      | (Some SkipException, env') \<Rightarrow> exec_repeat_loop I body n (leave env')
      | (Some StopException, env') \<Rightarrow> (None, leave env')
      | (Some x, env') \<Rightarrow> (Some x, leave env'))"
  by pat_completeness auto

termination
  apply (relation "inv_image (less_than <*lex*> less_than)
    (\<lambda>x. case x of
       Inl (Inl (I, ss, env)) \<Rightarrow> (size_list size ss, 0)
     | Inl (Inr (I, s, env)) \<Rightarrow> (size s, 0)
     | Inr (Inl (I, c, body, count, env)) \<Rightarrow> (size_list size body, 10000001 - count)
     | Inr (Inr (I, body, n, env)) \<Rightarrow> (size_list size body, n + 1))")
  subgoal by (intro wf_inv_image wf_lex_prod wf_less_than)
  apply simp_all
  done

declare exec_while_loop.simps [simp del]

text \<open>
  \<open>_exec_remove_dict_value\<close>. The dictionary is mutated in place in the source; the
  result here is the contents of that dictionary object after the statement.
\<close>

definition exec_remove_dict_value ::
  "Interpreter \<Rightarrow> Environment \<Rightarrow> expr \<Rightarrow> expr \<Rightarrow> nat \<Rightarrow> exn + (val \<times> val) list" where
  "exec_remove_dict_value I env dict_expr key_expr line =
     (case evaluate I env dict_expr of
        Inl e \<Rightarrow> Inl e
      | Inr (VDict d) \<Rightarrow>
          (case evaluate I env key_expr of
             Inl e \<Rightarrow> Inl e
           | Inr k \<Rightarrow>
               if \<not> hashable k then Inl TypeError
               else Inr (if dict_contains d k then dict_del d k else d))
      | Inr _ \<Rightarrow> Inl (RuntimeError (DictRemoveNeedsDict line)))"

section \<open>Parser: compound conditions (parser.py)\<close>

text \<open>
  The parser state is \<open>self.pos\<close>; \<open>self.tokens\<close> is passed along. Reading
  \<open>self.tokens[self.pos]\<close> outside the list raises \<open>IndexError\<close>.
  \<open>parse_single_condition\<close> (with \<open>parse_expr\<close> behind it) is a parameter \<open>psc\<close> of the
  model: from the tokens and a position it gives a \<open>ParseError\<close> or the condition
  parsed and the position after it.
\<close>

datatype parse_error = ParseError string | IndexError

definition py_lower_char :: "char \<Rightarrow> char" where
  "py_lower_char c = (let n = of_char c :: nat in
     if (65 \<le> n \<and> n \<le> 90) \<or> (192 \<le> n \<and> n \<le> 222 \<and> n \<noteq> 215)
     then char_of (n + 32) else c)"

definition py_lower :: "string \<Rightarrow> string" where
  "py_lower s = map py_lower_char s"

definition word_is :: "Token list \<Rightarrow> nat \<Rightarrow> string list \<Rightarrow> bool" where
  "word_is tokens pos words =
     (tok_type (tokens ! pos) = WORD
      \<and> py_lower (tok_value (tokens ! pos)) \<in> set (map py_lower words))"

text \<open>\<open>Parser.advance\<close>: the position after it (the token it returns is \<open>tokens ! pos\<close>).\<close>

definition advance :: "Token list \<Rightarrow> nat \<Rightarrow> nat" where
  "advance tokens pos = (if pos < length tokens - 1 then pos + 1 else pos)"

text \<open>
  The \<open>while\<close> loop of \<open>parse_compound_condition\<close>. With an arbitrary \<open>psc\<close> the loop
  need not end: a run that does not return is \<open>None\<close>.
\<close>

partial_function (option) compound_loop ::
  "(Token list \<Rightarrow> nat \<Rightarrow> parse_error + cond \<times> nat) \<Rightarrow> Token list \<Rightarrow> nat \<Rightarrow> cond \<Rightarrow> nat
     \<Rightarrow> (parse_error + cond \<times> nat) option" where
  "compound_loop psc tokens line left pos =
     (if pos \<ge> length tokens then Some (Inl IndexError)
      else if word_is tokens pos [''and'', ''or''] then
        (case psc tokens (advance tokens pos) of
           Inl e \<Rightarrow> Some (Inl e)
         | Inr r \<Rightarrow>
             compound_loop psc tokens line
               (CompoundCondition left (py_lower (tok_value (tokens ! pos))) (fst r) line)
               (snd r))
      else Some (Inr (left, pos)))"

definition parse_compound_condition ::
  "(Token list \<Rightarrow> nat \<Rightarrow> parse_error + cond \<times> nat) \<Rightarrow> Token list \<Rightarrow> nat
     \<Rightarrow> (parse_error + cond \<times> nat) option" where
  "parse_compound_condition psc tokens pos =
     (if pos \<ge> length tokens then Some (Inl IndexError)
      else
        (case psc tokens pos of
           Inl e \<Rightarrow> Some (Inl e)
         | Inr r \<Rightarrow> compound_loop psc tokens (tok_line (tokens ! pos)) (fst r) (snd r)))"

section \<open>Method dispatch (interpreter.py)\<close>

text \<open>
  \<open>self.classes\<close> and \<open>self.methods\<close>. Of a \<open>ClassDef\<close> the walk reads the parent; of a
  \<open>MethodDef\<close> the model keeps the class and the name it was defined with, its parameter
  names and its body.
\<close>

datatype ClassDef = ClassDef (class_name: string) (properties: "string list")
  (class_parent: "string option")

datatype MethodDef = MethodDef (method_class: string) (method_name: string)
  (method_params: "string list") (method_body: "stmt list")

type_synonym class_table = "string \<rightharpoonup> ClassDef"
type_synonym method_table = "string \<rightharpoonup> (string \<rightharpoonup> MethodDef)"

text \<open>
  The loop ``Walk inheritance chain to find the method'' of \<open>_call_method\<close>, with the
  final \<open>method_def\<close> as its result. An empty class name or parent name is false in the
  tests \<open>while search_class\<close> and \<open>if ... .parent\<close>. On a cycle of parent links the loop
  never ends: the result is then \<open>None\<close>.
\<close>

partial_function (option) find_method ::
  "class_table \<Rightarrow> method_table \<Rightarrow> string \<Rightarrow> string \<Rightarrow> MethodDef option option" where
  "find_method classes methods search_class name =
     (if search_class = [] then Some None
      else
        (case (case methods search_class of None \<Rightarrow> None | Some tbl \<Rightarrow> tbl name) of
           Some method_def \<Rightarrow> Some (Some method_def)
         | None \<Rightarrow>
             (case classes search_class of
                None \<Rightarrow> Some None
              | Some cls \<Rightarrow>
                  (case class_parent cls of
                     None \<Rightarrow> Some None
                   | Some p \<Rightarrow>
                       if p = [] then Some None
                       else find_method classes methods p name))))"

text \<open>
  What \<open>_call_method\<close> selects to call for an object that is not a module namespace:
  a native callable stored in the instance's properties under the method's name is
  checked for first and called directly; otherwise the method found by the walk. The
  arity check and the call frame that follow in the source are not part of the model.
\<close>

datatype call_target = NativeProperty string | Method MethodDef

definition call_method_target ::
  "class_table \<Rightarrow> method_table \<Rightarrow> val \<Rightarrow> string \<Rightarrow> nat \<Rightarrow> (exn + call_target) option" where
  "call_method_target classes methods obj name line =
     (case obj of
        VInstance cname props \<Rightarrow>
          (case map_of props name of
             Some (VNative f) \<Rightarrow> Some (Inr (NativeProperty f))
           | _ \<Rightarrow>
               (case find_method classes methods cname name of
                  None \<Rightarrow> None
                | Some None \<Rightarrow> Some (Inl (RuntimeError (MethodNotFound name cname line)))
                | Some (Some method_def) \<Rightarrow> Some (Inr (Method method_def))))
      | _ \<Rightarrow> Some (Inl (RuntimeError (NotAnObject line))))"

text \<open>
  A chain of classes, each the parent of the one before it, and the method a class's own
  table holds for a name.
\<close>

fun is_parent_chain :: "class_table \<Rightarrow> string list \<Rightarrow> bool" where
  "is_parent_chain classes [] = False"
| "is_parent_chain classes [c] = (c \<noteq> [])"
| "is_parent_chain classes (c # p # cs) =
     (c \<noteq> [] \<and> map_option class_parent (classes c) = Some (Some p)
      \<and> is_parent_chain classes (p # cs))"

definition own_method :: "method_table \<Rightarrow> string \<Rightarrow> string \<Rightarrow> MethodDef option" where
  "own_method methods c name = (case methods c of None \<Rightarrow> None | Some tbl \<Rightarrow> tbl name)"

section \<open>Reference readings and example inputs\<close>

text \<open>Two fixed inputs for the closed theorems: an interpreter and the empty global scope.\<close>

definition example_interp :: Interpreter where
  "example_interp =
     \<lparr>func_table = Map.empty,
      py_str = (\<lambda>v. case v of VStr s \<Rightarrow> s | _ \<Rightarrow> ''<value>''),
      exn_str = (\<lambda>e. ''error''),
      loose_eq = (\<lambda>a b. a = b),
      to_num = (\<lambda>v. map_option to_rat (as_number v)),
      path_exists = (\<lambda>p. False)\<rparr>"

definition global_scope :: Environment where
  "global_scope = Environment Map.empty None"

text \<open>
  What \<open>x and y\<close> and \<open>x or y\<close> mean for two condition results, the right one only
  looked at when the left one does not decide: the reading of the chain the claim gives.
\<close>

definition cond_and :: "exn + bool \<Rightarrow> exn + bool \<Rightarrow> exn + bool" where
  "cond_and x y = (case x of Inl e \<Rightarrow> Inl e | Inr a \<Rightarrow> if a then y else Inr False)"

definition cond_or :: "exn + bool \<Rightarrow> exn + bool \<Rightarrow> exn + bool" where
  "cond_or x y = (case x of Inl e \<Rightarrow> Inl e | Inr a \<Rightarrow> if a then Inr True else y)"

text \<open>A single-condition parser for the shape \<open>WORD > WORD\<close>, used in the closed example.\<close>

definition example_single_condition :: "Token list \<Rightarrow> nat \<Rightarrow> parse_error + cond \<times> nat" where
  "example_single_condition tokens pos =
     (if pos + 2 < length tokens \<and> tok_type (tokens ! pos) = WORD
         \<and> tok_type (tokens ! (pos + 1)) = GT \<and> tok_type (tokens ! (pos + 2)) = WORD
      then Inr (Condition (Identifier (tok_value (tokens ! pos)) (tok_line (tokens ! pos)))
                  ''greater_than''
                  (Some (Identifier (tok_value (tokens ! (pos + 2))) (tok_line (tokens ! (pos + 2)))))
                  (tok_line (tokens ! pos)),
                pos + 3)
      else Inl (ParseError ''I expected a comparison''))"

definition example_tokens :: "Token list" where
  "example_tokens =
     [Token WORD ''a'' 1, Token GT ''>'' 1, Token WORD ''b'' 1, Token WORD ''and'' 1,
      Token WORD ''b'' 1, Token GT ''>'' 1, Token WORD ''c'' 1, Token WORD ''Or'' 1,
      Token WORD ''c'' 1, Token GT ''>'' 1, Token WORD ''a'' 1, Token PERIOD ''.'' 1,
      Token EOF [] 1]"

text \<open>A class, a subclass of it and their method tables, for the closed theorems.\<close>

definition example_classes :: class_table where
  "example_classes =
     [''Animal'' \<mapsto> ClassDef ''Animal'' [''name''] None,
      ''Dog'' \<mapsto> ClassDef ''Dog'' [''breed''] (Some ''Animal'')]"

definition example_methods :: method_table where
  "example_methods =
     [''Animal'' \<mapsto> [''speak'' \<mapsto> MethodDef ''Animal'' ''speak'' [] [],
                      ''eat'' \<mapsto> MethodDef ''Animal'' ''eat'' [] []],
      ''Dog'' \<mapsto> [''speak'' \<mapsto> MethodDef ''Dog'' ''speak'' [] []]]"

definition native_property :: "(string \<times> val) list \<Rightarrow> string \<Rightarrow> bool" where
  "native_property props name = (case map_of props name of Some (VNative f) \<Rightarrow> True | _ \<Rightarrow> False)"

section \<open>Properties\<close>

subsection \<open>Scope chains\<close>

lemma chain_not_Nil [simp]: "chain env \<noteq> []"
  by (cases env) simp

lemma get_unbound:
  "\<not> bound_in_chain env name \<Longrightarrow> get env name line = Inl (RuntimeError (NameNotFound name line))"
proof (induction env)
  case (Environment vs p)
  then show ?case
    by (cases p) (auto simp: bound_in_chain_def)
qed

lemma assign_unbound_chain:
  "\<not> bound_in_chain env name \<Longrightarrow>
     chain (assign env name v) = butlast (chain env) @ [(last (chain env))(name \<mapsto> v)]"
proof (induction env)
  case (Environment vs p)
  then show ?case
    by (cases p) (auto simp: bound_in_chain_def dom_def)
qed

lemma assign_unbound_vars:
  "\<not> bound_in_chain env name \<Longrightarrow>
     vars (assign env name v) = (if parent env = None then (vars env)(name \<mapsto> v) else vars env)"
  by (cases env) (auto simp: bound_in_chain_def dom_def split: option.splits)

lemma get_assign_same: "get (assign env name v) name line = Inr v"
proof (induction env)
  case (Environment vs p)
  then show ?case
    by (cases p) (auto simp: dom_def split: option.splits)
qed

lemma assign_child: "assign (child env) name v = child (assign env name v)"
  by (simp add: child_def)

lemma leave_child [simp]: "leave (child env) = env"
  by (simp add: leave_def child_def)

lemma get_child [simp]: "get (child env) name line = get env name line"
  by (simp add: child_def)

lemma evaluate_child: "evaluate I (child env) e = evaluate I env e"
  by (induction e) (simp_all cong: sum.case_cong val.case_cong)

lemma execute_let_in_child:
  "evaluate I env e = Inr v \<Longrightarrow>
     execute I [LetStmt name e] (child env) = (None, child (assign env name v))"
  by (simp add: evaluate_child assign_child)

lemma assign_unbound_own:
  "\<not> bound_in_chain env name \<Longrightarrow>
     (vars (assign env name v) name = Some v) = (parent env = None)"
  by (cases env) (auto simp: bound_in_chain_def dom_def split: option.splits)

text \<open>
  C1. The claim: an identifier bound in no scope of the chain and naming no defined
  function fails to evaluate, with a name-not-found runtime error. In the code the
  lookup \<open>Environment.get\<close> does fail so, but \<open>evaluate\<close> catches that error and, with no
  function of that name, returns \<open>node.name\<close>: the identifier's own name as a text value.
\<close>

theorem evaluate_identifier_unbound:
  assumes "\<not> bound_in_chain env name" and "func_table I name = None"
  shows "get env name line = Inl (RuntimeError (NameNotFound name line))
       \<and> evaluate I env (Identifier name line) = Inr (VStr name)"
  using assms by (simp add: get_unbound)

theorem evaluate_identifier_unbound_witness:
  "get global_scope ''x'' 3 = Inl (RuntimeError (NameNotFound ''x'' 3))
   \<and> evaluate example_interp global_scope (Identifier ''x'' 3) = Inr (VStr ''x'')"
  using evaluate_identifier_unbound [of global_scope "''x''" example_interp 3]
  by (simp add: global_scope_def example_interp_def bound_in_chain_def)

theorem evaluate_identifier_not_error:
  "\<not> bound_in_chain global_scope ''x'' \<and> func_table example_interp ''x'' = None
   \<and> evaluate example_interp global_scope (Identifier ''x'' 3)
       \<noteq> Inl (RuntimeError (NameNotFound ''x'' 3))"
  by (simp add: global_scope_def example_interp_def bound_in_chain_def)

text \<open>
  C2. The claim: a variable declared fresh inside a block is created in the block's own
  scope and is bound in no enclosing scope once the block has completed. In the code
  \<open>Let\<close> calls \<open>Environment.assign\<close>, which hands a name that no scope owns up the
  parent links and creates it in the outermost scope. So, for a block whose body is one
  \<open>Let\<close> of a fresh name: the block's own scope stays as it was, every scope of the chain
  but the outermost is unchanged, the outermost scope gains the binding, and the name
  is readable from the enclosing scope after the block (shown for the block itself, for
  both arms of an \<open>If\<close> and for one iteration of a \<open>Repeat\<close> loop).
\<close>

theorem fresh_let_in_block:
  assumes "\<not> bound_in_chain env name" and "evaluate I env e = Inr v"
    and "evaluate_condition I env ct = Inr True"
    and "evaluate_condition I env cf = Inr False"
  shows "execute I [LetStmt name e] (child env) = (None, child (assign env name v))
       \<and> execute_stmt I (IfStmt ct [LetStmt name e] else_body) env = (None, assign env name v)
       \<and> execute_stmt I (IfStmt cf then_body [LetStmt name e]) env = (None, assign env name v)
       \<and> exec_repeat_loop I [LetStmt name e] 1 env = (None, assign env name v)
       \<and> chain (assign env name v) = butlast (chain env) @ [(last (chain env))(name \<mapsto> v)]
       \<and> get (assign env name v) name line = Inr v"
  using assms
  by (simp add: evaluate_child assign_child assign_unbound_chain get_assign_same)

theorem fresh_let_in_block_witness:
  "execute_stmt example_interp
     (IfStmt (Condition (NumberLiteral 1 1) ''is_number'' None 1)
        [LetStmt ''x'' (NumberLiteral 5 2)] [])
     (child global_scope)
   = (None, assign (child global_scope) ''x'' (VInt 5))
   \<and> get (assign (child global_scope) ''x'' (VInt 5)) ''x'' 3 = Inr (VInt 5)"
  using fresh_let_in_block [of "child global_scope" "''x''" example_interp "NumberLiteral 5 2"
      "VInt 5" "Condition (NumberLiteral 1 1) ''is_number'' None 1"
      "Condition (NumberLiteral 1 1) ''is_text'' None 1" "[]" "[]" 3]
  by (simp add: global_scope_def example_interp_def bound_in_chain_def child_def py_int_def)

theorem fresh_let_leaves_block:
  "\<not> bound_in_chain global_scope ''x''
   \<and> vars (snd (execute example_interp [LetStmt ''x'' (NumberLiteral 5 2)] (child global_scope)))
        ''x'' = None
   \<and> vars (snd (execute_stmt example_interp
        (IfStmt (Condition (NumberLiteral 1 1) ''is_number'' None 1)
           [LetStmt ''x'' (NumberLiteral 5 2)] [])
        global_scope)) ''x'' = Some (VInt 5)"
  by (simp add: global_scope_def example_interp_def bound_in_chain_def child_def leave_def
      py_int_def)

text \<open>
  C4. The claim: try/handle and attempt/rescue both run the protected body in a fresh
  child scope of the entry scope, so that a fresh binding made in the body is not a
  binding of the entry scope itself. In the code \<open>_exec_try_catch\<close> runs the body in
  \<open>Environment(parent=env)\<close>; a \<open>Let\<close> of a fresh name in the body of either statement
  is created by \<open>assign\<close> in the outermost scope of the chain, and that is the entry scope
  itself exactly when the entry scope has no parent.
\<close>

theorem protected_body_fresh_let:
  assumes "\<not> bound_in_chain env name" and "evaluate I env e = Inr v"
    and "execute I try_body (child env) = (None, env')"
  shows "execute_stmt I (TryCatch try_body error_var catch_body) env = (None, leave env')
       \<and> execute_stmt I (TryCatch [LetStmt name e] error_var catch_body) env
           = (None, assign env name v)
       \<and> execute_stmt I (AttemptStmt [LetStmt name e] error_var catch_body) env
           = (None, assign env name v)
       \<and> chain (assign env name v) = butlast (chain env) @ [(last (chain env))(name \<mapsto> v)]
       \<and> (vars (assign env name v) name = Some v) = (parent env = None)"
  using assms
  by (simp add: evaluate_child assign_child assign_unbound_chain assign_unbound_own)

theorem protected_body_fresh_let_witness:
  "execute_stmt example_interp (TryCatch [LetStmt ''y'' (NumberLiteral 5 1)] ''err'' [])
     (child global_scope) = (None, assign (child global_scope) ''y'' (VInt 5))
   \<and> execute_stmt example_interp (AttemptStmt [LetStmt ''y'' (NumberLiteral 5 1)] ''err'' [])
     (child global_scope) = (None, assign (child global_scope) ''y'' (VInt 5))
   \<and> vars (assign (child global_scope) ''y'' (VInt 5)) ''y'' \<noteq> Some (VInt 5)"
  using protected_body_fresh_let [of "child global_scope" "''y''" example_interp
      "NumberLiteral 5 1" "VInt 5" "[]" "child (child global_scope)" "''err''" "[]"]
  by (simp add: global_scope_def example_interp_def bound_in_chain_def child_def py_int_def)

theorem protected_body_binds_entry_scope:
  "\<not> bound_in_chain global_scope ''y''
   \<and> vars (snd (execute_stmt example_interp
        (TryCatch [LetStmt ''y'' (NumberLiteral 5 1)] ''err'' []) global_scope)) ''y''
       = Some (VInt 5)
   \<and> vars (snd (execute_stmt example_interp
        (AttemptStmt [LetStmt ''y'' (NumberLiteral 5 1)] ''err'' []) global_scope)) ''y''
       = Some (VInt 5)"
  by (simp add: global_scope_def example_interp_def bound_in_chain_def child_def leave_def
      py_int_def)

subsection \<open>Number tokens\<close>

text \<open>
  Where \<open>read_number\<close> stops on a \<open>'.'\<close>, no digit follows it; and \<open>tokenize\<close> turns a
  \<open>'.'\<close> that does not start an ellipsis into a \<open>PERIOD\<close> token.
\<close>

lemma read_number_loop_done:
  "\<not> (pos < length source \<and> (isdigit (source ! pos) \<or> source ! pos = CHR ''.'')) \<Longrightarrow>
     read_number_loop source pos buf = (buf, pos)"
  by (subst read_number_loop.simps) auto

lemma read_number_loop_dot_stop:
  "pos < length source \<Longrightarrow> source ! pos = CHR ''.'' \<Longrightarrow>
     \<not> (pos + 1 < length source \<and> isdigit (source ! (pos + 1))) \<Longrightarrow>
     read_number_loop source pos buf = (buf, pos)"
  by (subst read_number_loop.simps) (auto simp: Let_def)

lemma read_number_loop_step:
  "pos < length source \<Longrightarrow>
     (source ! pos = CHR ''.'' \<and> pos + 1 < length source \<and> isdigit (source ! (pos + 1)))
       \<or> (source ! pos \<noteq> CHR ''.'' \<and> isdigit (source ! pos)) \<Longrightarrow>
     read_number_loop source pos buf = read_number_loop source (pos + 1) (buf @ [source ! pos])"
  by (subst read_number_loop.simps) (auto simp: Let_def)

lemma read_number_loop_stop:
  "snd (read_number_loop source pos buf) = p \<Longrightarrow> p < length source \<Longrightarrow>
     source ! p = CHR ''.'' \<Longrightarrow> \<not> (p + 1 < length source \<and> isdigit (source ! (p + 1)))"
proof (induction source pos buf rule: read_number_loop.induct)
  case (1 source pos buf)
  consider (finished) "\<not> (pos < length source \<and> (isdigit (source ! pos) \<or> source ! pos = CHR ''.''))"
    | (dot_stop) "pos < length source" "source ! pos = CHR ''.''"
        "\<not> (pos + 1 < length source \<and> isdigit (source ! (pos + 1)))"
    | (dot_step) "pos < length source" "source ! pos = CHR ''.''"
        "pos + 1 < length source \<and> isdigit (source ! (pos + 1))"
    | (digit) "pos < length source" "source ! pos \<noteq> CHR ''.''" "isdigit (source ! pos)"
    by blast
  then show ?case
  proof cases
    case finished
    then have "read_number_loop source pos buf = (buf, pos)"
      by (rule read_number_loop_done)
    with "1.prems" finished show ?thesis by auto
  next
    case dot_stop
    then have "read_number_loop source pos buf = (buf, pos)"
      by (rule read_number_loop_dot_stop)
    with "1.prems" dot_stop show ?thesis by auto
  next
    case dot_step
    then have "read_number_loop source pos buf
        = read_number_loop source (pos + 1) (buf @ [source ! pos])"
      by (simp add: read_number_loop_step)
    with "1.prems" "1.IH"(1) dot_step show ?thesis by simp
  next
    case digit
    then have "read_number_loop source pos buf
        = read_number_loop source (pos + 1) (buf @ [source ! pos])"
      by (simp add: read_number_loop_step)
    with "1.prems" "1.IH"(2) digit show ?thesis by simp
  qed
qed

lemma skip_whitespace_no_space:
  "\<not> is_space (source ! pos) \<Longrightarrow> skip_whitespace source pos line = (pos, line)"
  by (subst skip_whitespace.simps) simp

lemma tokenize_loop_period:
  assumes "pos < length source" and "source ! pos = CHR ''.''"
    and "\<not> (pos + 2 < length source \<and> source ! (pos + 1) = CHR ''.''
            \<and> source ! (pos + 2) = CHR ''.'')"
  shows "tokenize_loop source pos line tokens
       = tokenize_loop source (pos + 1) line (tokens @ [Token PERIOD ''.'' line])"
proof -
  have "\<not> is_space (source ! pos)"
    using assms(2) by (simp add: is_space_def)
  then have sw: "skip_whitespace source pos line = (pos, line)"
    by (rule skip_whitespace_no_space)
  show ?thesis
    using assms sw by (subst tokenize_loop.simps) (auto simp: Let_def)
qed

lemma tokenize_trailing_period:
  "tokenize ''Let x be 3.'' = Inr [Token WORD ''Let'' 1, Token WORD ''x'' 1, Token WORD ''be'' 1,
      Token NUMBER ''3'' 1, Token PERIOD ''.'' 1, Token EOF [] 1]"
  by code_simp

text \<open>
  C6. The claim: a number token holds at most one decimal point, and a trailing \<open>'.'\<close>
  that no digit follows stays outside the token. \<open>read_number\<close> keeps no record of a
  decimal point already read: every \<open>'.'\<close> that a digit follows is appended. On the text
  \<open>1.2.3\<close> the lexer therefore returns one \<open>NUMBER\<close> token with two decimal points
  (which \<open>float\<close> in the parser then rejects with a \<open>ValueError\<close>).
\<close>

theorem tokenize_number_two_points:
  "tokenize ''1.2.3'' = Inr [Token NUMBER ''1.2.3'' 1, Token EOF [] 1]"
  by code_simp

subsection \<open>Arithmetic\<close>

lemma py_int_of_int [simp]: "py_int (of_int k) = k"
  by (simp add: py_int_def)

lemma clean_not_whole_float: "clean v \<noteq> VFloat (of_int k)"
  by (cases v) auto

lemma checked_arith_not_whole_float:
  "checked_arith I op left right line f \<noteq> Inr (VFloat (of_int k))"
  by (auto simp: checked_arith_def clean_not_whole_float split: option.splits sum.splits)

text \<open>
  The four operators that call \<open>_clean\<close> never return a float with a whole value.
\<close>

lemma apply_op_cleaned:
  assumes "op \<in> {''minus'', ''times'', ''divided_by'', ''modulo''}"
  shows "apply_op I op left right line \<noteq> Inr (VFloat (of_int k))"
  using assms by (auto simp: apply_op_def checked_arith_not_whole_float)

text \<open>
  C3. The claim: every arithmetic operator, \<open>plus\<close> included, returns a whole result in
  integer presentation. \<open>minus\<close>, \<open>times\<close>, \<open>divided_by\<close> and \<open>modulo\<close> pass their
  result through \<open>_clean\<close>; the numeric branch of \<open>plus\<close> returns \<open>left + right\<close> as it is.
  So \<open>6 divided by 2\<close> is the integer 3, but \<open>1.5 plus 1.5\<close> is the float 3.0, and joining
  it to a text with \<open>plus\<close> renders it with \<open>str\<close>, as a float.
\<close>

theorem plus_whole_sum_stays_float:
  "evaluate I env (BinOp (NumberLiteral 6 1) ''divided_by'' (NumberLiteral 2 1) 1) = Inr (VInt 3)
   \<and> evaluate I env (BinOp (NumberLiteral (3 / 2) 1) ''plus'' (NumberLiteral (3 / 2) 1) 1)
       = Inr (VFloat 3)
   \<and> evaluate I env
        (BinOp (BinOp (NumberLiteral (3 / 2) 1) ''plus'' (NumberLiteral (3 / 2) 1) 1)
           ''plus'' (StringLiteral ''apples'' 1) 1)
       = Inr (VStr (py_str I (VFloat 3) @ '' '' @ py_str I (VStr ''apples'')))"
proof -
  have "\<lfloor>3 / 2 :: rat\<rfloor> = 1"
    by (rule floor_unique) simp_all
  then show ?thesis
    by (simp add: apply_op_def checked_arith_def num_truediv_def py_int_def)
qed

subsection \<open>Waiting for a task\<close>

lemma wait_for_task:
  "wait_for I (VTask thread_result None) line = Inr thread_result"
  "wait_for I (VTask thread_result (Some e)) line = Inl e"
  by (simp_all add: wait_for_def)

lemma wait_for_not_task:
  "\<not> has_result v \<Longrightarrow> \<not> has_join v \<Longrightarrow> wait_for I v line = Inl (RuntimeError (WaitNeedsTask line))"
  by (simp add: wait_for_def)

text \<open>
  C5. The claim: waiting for a value that is not a task handle, a text for example, fails
  with the reported usage error. The code tells a handle from other values by
  \<open>hasattr(future, "join")\<close>, and every Python \<open>str\<close> has a method \<open>join\<close>: for a text
  the code calls \<open>future.join()\<close>, which raises \<open>TypeError\<close>, an exception that neither
  \<open>Attempt\<close> nor the top level catches.
\<close>

theorem wait_for_text_type_error:
  "evaluate I env (WaitExpr (StringLiteral ''hello'' 1) 1) = Inl TypeError"
  by (simp add: wait_for_def)

subsection \<open>Dictionaries\<close>

text \<open>
  C10. Removing the value for a key that the dictionary does not contain leaves the
  dictionary as it is and raises nothing, while reading the value for that key raises the
  key-not-found runtime error. A key is a hashable value (a list or a dictionary cannot be
  a key of a Python \<open>dict\<close>).
\<close>

theorem remove_missing_key_no_op:
  assumes "evaluate I env dict_expr = Inr (VDict d)"
    and "evaluate I env key_expr = Inr k"
    and "hashable k"
    and "\<not> dict_contains d k"
  shows "exec_remove_dict_value I env dict_expr key_expr line = Inr d
       \<and> evaluate I env (DictAccess dict_expr key_expr line)
           = Inl (RuntimeError (KeyNotFound (py_str I k) line))"
  using assms by (simp add: exec_remove_dict_value_def dict_contains_def)

theorem remove_missing_key_no_op_witness:
  "exec_remove_dict_value example_interp global_scope
     (LiteralNode (VDict [(VStr ''a'', VInt 1)]) 1) (StringLiteral ''b'' 1) 1
     = Inr [(VStr ''a'', VInt 1)]
   \<and> evaluate example_interp global_scope
       (DictAccess (LiteralNode (VDict [(VStr ''a'', VInt 1)]) 1) (StringLiteral ''b'' 1) 1)
     = Inl (RuntimeError (KeyNotFound ''b'' 1))"
  using remove_missing_key_no_op [of example_interp global_scope
      "LiteralNode (VDict [(VStr ''a'', VInt 1)]) 1" "[(VStr ''a'', VInt 1)]"
      "StringLiteral ''b'' 1" "VStr ''b''" 1]
  by (simp add: dict_contains_def key_eq_def example_interp_def)

subsection \<open>The while loop\<close>

lemma exec_while_loop_bound:
  "count \<le> 10000000 \<Longrightarrow> snd (exec_while_loop I c body count env) \<le> 10000000 - count"
proof (induction "10000000 - count" arbitrary: count env)
  case 0
  then have "count = 10000000" by simp
  then show ?case
    by (subst exec_while_loop.simps) (simp split: sum.splits)
next
  case (Suc k)
  then have lt: "count + 1 \<le> 10000000" and k: "k = 10000000 - (count + 1)"
    by simp_all
  have IH: "snd (exec_while_loop I c body (count + 1) e) \<le> 10000000 - (count + 1)" for e
    using Suc.hyps(1) [OF k lt] .
  show ?case
    using lt IH
    by (subst exec_while_loop.simps)
       (auto split: sum.splits prod.splits option.splits exn.splits
             simp: le_diff_conv2 dest: sndI)
qed

lemma exec_while_loop_always_true:
  assumes "\<And>e. evaluate_condition I e c = Inr True"
    and "\<And>e. fst (execute I body e) = None \<or> fst (execute I body e) = Some SkipException"
  shows "count \<le> 10000000 \<Longrightarrow>
         fst (fst (exec_while_loop I c body count env)) = Some (RuntimeError LoopTooLong)
       \<and> snd (exec_while_loop I c body count env) = 10000000 - count"
proof (induction "10000000 - count" arbitrary: count env)
  case 0
  then have "count = 10000000" by simp
  then show ?case
    using assms(1) by (subst (1 2) exec_while_loop.simps) simp
next
  case (Suc k)
  then have lt: "count + 1 \<le> 10000000" and k: "k = 10000000 - (count + 1)"
    by simp_all
  have IH: "fst (fst (exec_while_loop I c body (count + 1) e)) = Some (RuntimeError LoopTooLong)
       \<and> snd (exec_while_loop I c body (count + 1) e) = 10000000 - (count + 1)" for e
    using Suc.hyps(1) [OF k lt] .
  obtain r env' where ex: "execute I body (child env) = (r, env')"
    by (cases "execute I body (child env)")
  with assms(2) [of "child env"] have r: "r = None \<or> r = Some SkipException"
    by simp
  obtain r' n where rec: "exec_while_loop I c body (count + 1) (leave env') = (r', n)"
    by (cases "exec_while_loop I c body (count + 1) (leave env')")
  with IH [of "leave env'"] have "fst r' = Some (RuntimeError LoopTooLong)"
    and "n = 10000000 - (count + 1)"
    by simp_all
  then show ?case
    using lt assms(1) ex r rec
    by (subst (1 2) exec_while_loop.simps) auto
qed

text \<open>
  C8. The body of a while loop is executed at most 10,000,000 times. When the loop has
  counted 10,000,000 iterations and its condition is true again, it raises the runtime
  error instead of running the body; a loop whose condition never becomes false (and whose
  body always completes or skips) ends in that error after exactly 10,000,000 executions
  of the body.
\<close>

theorem while_loop_capped:
  assumes "\<And>e. evaluate_condition I e c = Inr True"
    and "\<And>e. fst (execute I body e) = None \<or> fst (execute I body e) = Some SkipException"
  shows "snd (exec_while_loop I c0 body0 0 env0) \<le> 10000000
       \<and> exec_while_loop I c body0 10000000 env = ((Some (RuntimeError LoopTooLong), env), 0)
       \<and> snd (exec_while_loop I c body 0 env) = 10000000
       \<and> fst (execute_stmt I (WhileStmt c body) env) = Some (RuntimeError LoopTooLong)"
proof -
  have "snd (exec_while_loop I c0 body0 0 env0) \<le> 10000000"
    using exec_while_loop_bound [of 0 I c0 body0 env0] by simp
  moreover have "exec_while_loop I c body0 10000000 env
      = ((Some (RuntimeError LoopTooLong), env), 0)"
    using assms(1) by (subst exec_while_loop.simps) simp
  moreover have "fst (fst (exec_while_loop I c body 0 env)) = Some (RuntimeError LoopTooLong)
      \<and> snd (exec_while_loop I c body 0 env) = 10000000"
    using exec_while_loop_always_true [OF assms, of 0 env] by simp
  ultimately show ?thesis by simp
qed

theorem while_loop_capped_witness:
  "fst (execute_stmt example_interp
          (WhileStmt (Condition (NumberLiteral 1 1) ''is_number'' None 1) []) global_scope)
     = Some (RuntimeError LoopTooLong)
   \<and> snd (exec_while_loop example_interp
          (Condition (NumberLiteral 1 1) ''is_number'' None 1) [] 0 global_scope) = 10000000"
  using while_loop_capped [of example_interp "Condition (NumberLiteral 1 1) ''is_number'' None 1"
      "[]" "Condition (NumberLiteral 1 1) ''is_number'' None 1" "[]" global_scope global_scope]
  by (simp add: py_int_def)

subsection \<open>Compound conditions\<close>

text \<open>
  C7. A chain of three single conditions joined by two connectives parses to the tree
  grouped to the left, whichever of \<open>and\<close> and \<open>or\<close> the connectives are; the tree of
  \<open>A and B or C\<close> evaluates as \<open>(A and B) or C\<close> (and that of \<open>A or B and C\<close> as
  \<open>(A or B) and C\<close>).
\<close>

theorem compound_condition_left_assoc:
  assumes "p0 < length tokens" and "psc tokens p0 = Inr (A, p1)"
    and "p1 < length tokens" and "tok_type (tokens ! p1) = WORD"
    and "py_lower (tok_value (tokens ! p1)) = k1" and "k1 = ''and'' \<or> k1 = ''or''"
    and "psc tokens (advance tokens p1) = Inr (B, p2)"
    and "p2 < length tokens" and "tok_type (tokens ! p2) = WORD"
    and "py_lower (tok_value (tokens ! p2)) = k2" and "k2 = ''and'' \<or> k2 = ''or''"
    and "psc tokens (advance tokens p2) = Inr (C, p3)"
    and "p3 < length tokens" and "\<not> word_is tokens p3 [''and'', ''or'']"
  shows "parse_compound_condition psc tokens p0
           = Some (Inr (CompoundCondition (CompoundCondition A k1 B (tok_line (tokens ! p0)))
                          k2 C (tok_line (tokens ! p0)), p3))
       \<and> evaluate_condition I env
            (CompoundCondition (CompoundCondition A ''and'' B line) ''or'' C line)
           = cond_or (cond_and (evaluate_condition I env A) (evaluate_condition I env B))
               (evaluate_condition I env C)
       \<and> evaluate_condition I env
            (CompoundCondition (CompoundCondition A ''or'' B line) ''and'' C line)
           = cond_and (cond_or (evaluate_condition I env A) (evaluate_condition I env B))
               (evaluate_condition I env C)"
proof -
  have w1: "word_is tokens p1 [''and'', ''or'']"
    using assms(4,5,6) by (auto simp: word_is_def py_lower_def py_lower_char_def)
  have w2: "word_is tokens p2 [''and'', ''or'']"
    using assms(9,10,11) by (auto simp: word_is_def py_lower_def py_lower_char_def)
  let ?l = "tok_line (tokens ! p0)"
  have l3: "compound_loop psc tokens ?l (CompoundCondition (CompoundCondition A k1 B ?l) k2 C ?l) p3
      = Some (Inr (CompoundCondition (CompoundCondition A k1 B ?l) k2 C ?l, p3))"
    using assms(13,14) by (subst compound_loop.simps) simp
  have l2: "compound_loop psc tokens ?l (CompoundCondition A k1 B ?l) p2
      = Some (Inr (CompoundCondition (CompoundCondition A k1 B ?l) k2 C ?l, p3))"
    using assms(8,10,12) w2 l3 by (subst compound_loop.simps) simp
  have l1: "compound_loop psc tokens ?l A p1
      = Some (Inr (CompoundCondition (CompoundCondition A k1 B ?l) k2 C ?l, p3))"
    using assms(3,5,7) w1 l2 by (subst compound_loop.simps) simp
  have parse: "parse_compound_condition psc tokens p0
      = Some (Inr (CompoundCondition (CompoundCondition A k1 B ?l) k2 C ?l, p3))"
    using assms(1,2) l1 by (simp add: parse_compound_condition_def)
  have ev1: "evaluate_condition I env
            (CompoundCondition (CompoundCondition A ''and'' B line) ''or'' C line)
           = cond_or (cond_and (evaluate_condition I env A) (evaluate_condition I env B))
               (evaluate_condition I env C)"
    by (auto simp: cond_or_def cond_and_def split: sum.splits)
  have ev2: "evaluate_condition I env
            (CompoundCondition (CompoundCondition A ''or'' B line) ''and'' C line)
           = cond_and (cond_or (evaluate_condition I env A) (evaluate_condition I env B))
               (evaluate_condition I env C)"
    by (auto simp: cond_or_def cond_and_def split: sum.splits)
  from parse ev1 ev2 show ?thesis by simp
qed

lemma py_lower_examples:
  "py_lower ''and'' = ''and''" "py_lower ''or'' = ''or''" "py_lower ''Or'' = ''or''"
  by code_simp+

theorem compound_condition_left_assoc_witness:
  "parse_compound_condition example_single_condition example_tokens 0
     = Some (Inr (CompoundCondition
                    (CompoundCondition
                       (Condition (Identifier ''a'' 1) ''greater_than'' (Some (Identifier ''b'' 1)) 1)
                       ''and''
                       (Condition (Identifier ''b'' 1) ''greater_than'' (Some (Identifier ''c'' 1)) 1)
                       1)
                    ''or''
                    (Condition (Identifier ''c'' 1) ''greater_than'' (Some (Identifier ''a'' 1)) 1)
                    1, 11))"
  using compound_condition_left_assoc [of 0 example_tokens example_single_condition
      "Condition (Identifier ''a'' 1) ''greater_than'' (Some (Identifier ''b'' 1)) 1" 3
      "''and''"
      "Condition (Identifier ''b'' 1) ''greater_than'' (Some (Identifier ''c'' 1)) 1" 7
      "''or''"
      "Condition (Identifier ''c'' 1) ''greater_than'' (Some (Identifier ''a'' 1)) 1" 11
      example_interp global_scope 1]
    py_lower_examples
  by (simp add: example_tokens_def example_single_condition_def advance_def word_is_def)

subsection \<open>Method dispatch\<close>

lemma is_parent_chain_hd: "is_parent_chain classes (c # cs) \<Longrightarrow> c \<noteq> []"
  by (cases cs) auto

lemma find_method_chain:
  assumes "is_parent_chain classes (cs @ [c])"
    and "list_all (\<lambda>x. own_method methods x name = None) cs"
    and "own_method methods c name = Some d"
  shows "find_method classes methods (hd (cs @ [c])) name = Some (Some d)"
  using assms
proof (induction cs)
  case Nil
  then show ?case
    by (subst find_method.simps) (simp add: own_method_def)
next
  case (Cons x xs)
  obtain p rest where pr: "xs @ [c] = p # rest"
    by (cases "xs @ [c]") auto
  with Cons.prems(1) have x: "x \<noteq> []"
    and par: "map_option class_parent (classes x) = Some (Some p)"
    and rest: "is_parent_chain classes (xs @ [c])"
    by auto
  from rest pr have p: "p \<noteq> []"
    using is_parent_chain_hd by metis
  from Cons.prems(2) have none: "own_method methods x name = None"
    and others: "list_all (\<lambda>x. own_method methods x name = None) xs"
    by auto
  have IH: "find_method classes methods p name = Some (Some d)"
    using Cons.IH [OF rest others Cons.prems(3)] pr by simp
  have "find_method classes methods x name = find_method classes methods p name"
    using x par p none
    by (subst find_method.simps) (auto simp: own_method_def split: option.splits)
  with IH show ?case by simp
qed

text \<open>
  C9. The claim: for every instance, dispatch searches the method table of the instance's
  class, then those of its ancestors in order, and the first match wins. \<open>_call_method\<close>
  first looks for a native callable stored in the instance's properties under the
  method's name and calls that. For an instance without such a property the method
  called is the first one found along the chain of parent links, starting at the
  instance's own class.
\<close>

theorem method_dispatch_first_match:
  assumes "is_parent_chain classes (cs @ [c])"
    and "list_all (\<lambda>x. own_method methods x name = None) cs"
    and "own_method methods c name = Some d"
    and "\<not> native_property props name"
    and "map_of props' name = Some (VNative f)"
  shows "find_method classes methods (hd (cs @ [c])) name = Some (Some d)
       \<and> call_method_target classes methods (VInstance (hd (cs @ [c])) props) name line
           = Some (Inr (Method d))
       \<and> call_method_target classes methods (VInstance (hd (cs @ [c])) props') name line
           = Some (Inr (NativeProperty f))"
proof -
  have fm: "find_method classes methods (hd (cs @ [c])) name = Some (Some d)"
    using find_method_chain [OF assms(1,2,3)] .
  have "call_method_target classes methods (VInstance (hd (cs @ [c])) props) name line
      = Some (Inr (Method d))"
    using assms(4) fm
    by (auto simp: call_method_target_def native_property_def split: option.splits val.splits)
  moreover have "call_method_target classes methods (VInstance (hd (cs @ [c])) props') name line
      = Some (Inr (NativeProperty f))"
    using assms(5) by (simp add: call_method_target_def)
  ultimately show ?thesis using fm by simp
qed

theorem method_dispatch_first_match_witness:
  "call_method_target example_classes example_methods (VInstance ''Dog'' []) ''speak'' 1
     = Some (Inr (Method (MethodDef ''Dog'' ''speak'' [] [])))
   \<and> call_method_target example_classes example_methods (VInstance ''Dog'' []) ''eat'' 1
     = Some (Inr (Method (MethodDef ''Animal'' ''eat'' [] [])))"
  using method_dispatch_first_match [of example_classes "[]" "''Dog''" example_methods
      "''speak''" "MethodDef ''Dog'' ''speak'' [] []" "[]"
      "[(''speak'', VNative ''time_now'')]" "''time_now''" 1]
    method_dispatch_first_match [of example_classes "[''Dog'']" "''Animal''" example_methods
      "''eat''" "MethodDef ''Animal'' ''eat'' [] []" "[]"
      "[(''eat'', VNative ''time_now'')]" "''time_now''" 1]
  by (simp add: example_classes_def example_methods_def own_method_def native_property_def)

theorem native_property_shadows_method:
  "own_method example_methods ''Dog'' ''speak'' = Some (MethodDef ''Dog'' ''speak'' [] [])
   \<and> call_method_target example_classes example_methods
        (VInstance ''Dog'' [(''speak'', VNative ''time_now'')]) ''speak'' 1
       = Some (Inr (NativeProperty ''time_now''))"
  by (simp add: example_methods_def own_method_def call_method_target_def)

end
